theory Spec2Isabelle
  imports
    Main
    "HOL-Library.Sublist"
    "HOL-Library.AList"
    "HOL-Library.Char_ord"
    "HOL-Library.List_Lexorder"
begin

section \<open>The Go library calls used by api.go\<close>

text \<open>
  The handlers of \<^verbatim>\<open>api/api.go\<close> are embedded as functions over an explicit
  response writer and an explicit file system. What the Go standard library and
  gorilla/mux do is written out in this section, as far as the handlers use it; the
  handlers themselves follow in the next section, line by line.
\<close>

type_synonym bytes = string
type_synonym path = string
type_synonym err = string

subsection \<open>strings.Split\<close>

text \<open>
  \<^verbatim>\<open>strings.Split(s, sep)\<close> for a non-empty separator: cut at the first occurrence
  of \<open>sep\<close>, continue behind it, and return the rest as the last element. The source
  calls it with \<^verbatim>\<open>" "\<close> and \<^verbatim>\<open>".json"\<close> only; the empty separator (which
  explodes the string) is not modelled.
\<close>

function genSplit :: "string \<Rightarrow> string \<Rightarrow> string \<Rightarrow> string list" where
  "genSplit sep cur [] = [cur]"
| "genSplit sep cur (c # cs) =
     (if sep \<noteq> [] \<and> prefix sep (c # cs)
      then cur # genSplit sep [] (drop (length sep) (c # cs))
      else genSplit sep (cur @ [c]) cs)"
  by pat_completeness auto
termination
  by (relation "measure (\<lambda>(sep, cur, s). length s)") auto

definition strings_Split :: "string \<Rightarrow> string \<Rightarrow> string list" where
  "strings_Split s sep = genSplit sep [] s"

subsection \<open>encoding/json\<close>

text \<open>
  Modelled from the spec: \<^verbatim>\<open>infrared.ProxyConfig\<close> is declared outside
  \<^verbatim>\<open>api/api.go\<close>; of its fields only the two that the validation reads are kept,
  \<open>domainNames\<close> (a list of strings) and \<open>proxyTo\<close> (a string).
\<close>

record ProxyConfig =
  DomainNames :: "string list"
  ProxyTo :: string

record APIConfig =
  BearerToken :: string

text \<open>
  The JSON decoder and the JSON string quoting belong to \<^verbatim>\<open>encoding/json\<close>. They
  are parameters of the model: \<open>Unmarshal_ProxyConfig\<close> is
  \<^verbatim>\<open>json.Unmarshal(data, &cfg)\<close> for a \<^verbatim>\<open>ProxyConfig\<close>,
  \<open>Unmarshal_APIConfig\<close> the same for an \<^verbatim>\<open>APIConfig\<close>, and \<open>quote\<close> is
  the encoding of one Go string as a JSON string.
\<close>

record json =
  Unmarshal_ProxyConfig :: "bytes \<Rightarrow> err + ProxyConfig"
  Unmarshal_APIConfig :: "bytes \<Rightarrow> err + APIConfig"
  quote :: "string \<Rightarrow> bytes"

definition newline :: string where
  "newline = [CHR 0x0A]"


text \<open>
  What \<^verbatim>\<open>Encoder.Encode\<close> hands to the writer for a \<^verbatim>\<open>map[string]string\<close>
  with one key, and for a \<^verbatim>\<open>[]string\<close>. A slice that was declared with
  \<^verbatim>\<open>var\<close> and never appended to is nil and encodes as \<^verbatim>\<open>null\<close>.
\<close>

definition marshal_map1 :: "json \<Rightarrow> string \<Rightarrow> string \<Rightarrow> bytes" where
  "marshal_map1 J k v = ''{'' @ quote J k @ '':'' @ quote J v @ ''}'' @ newline"


subsection \<open>http.ResponseWriter\<close>

text \<open>
  The response writer records what a handler hands to it: the status of the first
  \<^verbatim>\<open>WriteHeader\<close> (later calls are superfluous and ignored), an implicit
  \<^verbatim>\<open>200\<close> on a \<^verbatim>\<open>Write\<close> before any \<^verbatim>\<open>WriteHeader\<close>, and the bytes passed
  to \<^verbatim>\<open>Write\<close>. A handler that returns without writing leaves the initial status
  \<^verbatim>\<open>200\<close> and an empty body. A \<^verbatim>\<open>Write\<close> may fail: the fault gives the error
  and how many bytes went out before it.
\<close>

record ResponseWriter =
  wroteHeader :: bool
  status :: nat
  body :: bytes

definition NewResponse :: ResponseWriter where
  "NewResponse = \<lparr>wroteHeader = False, status = 200, body = []\<rparr>"

definition WriteHeader :: "nat \<Rightarrow> ResponseWriter \<Rightarrow> ResponseWriter" where
  "WriteHeader code w = (if wroteHeader w then w else w\<lparr>wroteHeader := True, status := code\<rparr>)"

definition Write :: "(err \<times> nat) option \<Rightarrow> bytes \<Rightarrow> ResponseWriter \<Rightarrow> err option \<times> ResponseWriter" where
  "Write flt b w =
     (let w' = WriteHeader 200 w in
      case flt of
        None \<Rightarrow> (None, w'\<lparr>body := body w' @ b\<rparr>)
      | Some (e, n) \<Rightarrow> (Some e, w'\<lparr>body := body w' @ take n b\<rparr>))"

subsection \<open>The file system\<close>

text \<open>
  Regular files by path, as an association list with one entry per path. Paths are
  compared as strings: \<^verbatim>\<open>.\<close>, \<^verbatim>\<open>..\<close> and links are not resolved. The entries
  of a directory \<open>d\<close> are the files whose path is \<open>d/n\<close> for a name \<open>n\<close> without
  a separator.

  Every call can fail for reasons outside the model (permissions, a full disk, a
  directory in the way): the faults of one request say which calls do. A failed
  \<^verbatim>\<open>os.WriteFile\<close> may leave a file behind (its fault carries what is left at the
  path, if anything); a failed \<^verbatim>\<open>os.Rename\<close> or \<^verbatim>\<open>os.Remove\<close> changes nothing.
\<close>

type_synonym fs = "(path \<times> bytes) list"

record faults =
  ReadDir_fault :: "err option"
  Open_fault :: "err option"
  ReadAll_fault :: "err option"
  WriteFile_fault :: "(err \<times> bytes option) option"
  Rename_fault :: "err option"
  Remove_fault :: "err option"
  Write_fault :: "(err \<times> nat) option"

definition no_faults :: faults where
  "no_faults = \<lparr>ReadDir_fault = None, Open_fault = None, ReadAll_fault = None,
     WriteFile_fault = None, Rename_fault = None, Remove_fault = None, Write_fault = None\<rparr>"

definition ENOENT :: err where
  "ENOENT = ''no such file or directory''"



text \<open>An open file is modelled by the content it will deliver.\<close>

definition os_Open :: "err option \<Rightarrow> path \<Rightarrow> fs \<Rightarrow> err + bytes" where
  "os_Open flt p fs =
     (case flt of
        Some e \<Rightarrow> Inl e
      | None \<Rightarrow> (case map_of fs p of None \<Rightarrow> Inl (''open '' @ p @ '': '' @ ENOENT) | Some b \<Rightarrow> Inr b))"

definition ioutil_ReadAll :: "err option \<Rightarrow> bytes \<Rightarrow> err + bytes" where
  "ioutil_ReadAll flt f = (case flt of Some e \<Rightarrow> Inl e | None \<Rightarrow> Inr f)"

definition os_WriteFile :: "(err \<times> bytes option) option \<Rightarrow> path \<Rightarrow> bytes \<Rightarrow> fs \<Rightarrow> err option \<times> fs" where
  "os_WriteFile flt p data fs =
     (case flt of
        Some (e, left) \<Rightarrow> (Some e, (case left of None \<Rightarrow> fs | Some r \<Rightarrow> AList.update p r fs))
      | None \<Rightarrow> (None, AList.update p data fs))"

definition os_Rename :: "err option \<Rightarrow> path \<Rightarrow> path \<Rightarrow> fs \<Rightarrow> err option \<times> fs" where
  "os_Rename flt old new fs =
     (case flt of
        Some e \<Rightarrow> (Some e, fs)
      | None \<Rightarrow>
          (case map_of fs old of
             None \<Rightarrow> (Some (''rename '' @ old @ '' '' @ new @ '': '' @ ENOENT), fs)
           | Some b \<Rightarrow> (None, AList.update new b (AList.delete old fs))))"


subsection \<open>Requests\<close>

text \<open>
  A request carries its method and path, the \<^verbatim>\<open>Authorization\<close> header if there is
  one, the route variables that the router has bound, and what reading its body to the
  end gives.
\<close>

record request =
  Method :: string
  URLPath :: string
  Authorization :: "string option"
  Vars :: "(string \<times> string) list"
  Body :: "err + bytes"

definition Header_Get_Authorization :: "request \<Rightarrow> string" where
  "Header_Get_Authorization r = (case Authorization r of None \<Rightarrow> [] | Some v \<Rightarrow> v)"

definition mux_Vars :: "request \<Rightarrow> string \<Rightarrow> string" where
  "mux_Vars r k = (case map_of (Vars r) k of None \<Rightarrow> [] | Some v \<Rightarrow> v)"

type_synonym HandlerFunc = "request \<Rightarrow> ResponseWriter \<Rightarrow> fs \<Rightarrow> ResponseWriter \<times> fs"

subsection \<open>gorilla/mux\<close>







section \<open>api.go\<close>

text \<open>
  Every handler takes the decoder and quoting of \<^verbatim>\<open>encoding/json\<close> and the faults
  of the request where it needs them, then what the Go closure captures, then the
  request, the response writer and the file system; it returns the response writer and
  the file system. Log lines are not modelled.
\<close>

subsection \<open>authenticateMiddleware\<close>

definition deny :: "json \<Rightarrow> faults \<Rightarrow> string \<Rightarrow> ResponseWriter \<Rightarrow> ResponseWriter" where
  "deny J flt msg w =
     snd (Write (Write_fault flt) (marshal_map1 J ''error'' msg) (WriteHeader 401 w))"

definition authenticateMiddleware :: "json \<Rightarrow> faults \<Rightarrow> APIConfig \<Rightarrow> HandlerFunc \<Rightarrow> HandlerFunc" where
  "authenticateMiddleware J flt config next r w fs =
     (let authHeader = Header_Get_Authorization r in
      if authHeader = [] then (deny J flt ''No authorization header provided'' w, fs)
      else
        let headerParts = strings_Split authHeader '' '' in
        if length headerParts \<noteq> 2 \<or> headerParts ! 0 \<noteq> ''Bearer''
        then (deny J flt ''Invalid authorization header format'' w, fs)
        else
          let token = headerParts ! 1 in
          if token \<noteq> BearerToken config then (deny J flt ''Invalid token'' w, fs)
          else next r w fs)"

subsection \<open>LoadConfig\<close>

text \<open>The argument is what \<^verbatim>\<open>ioutil.ReadFile(configFile)\<close> returned.\<close>

definition LoadConfig :: "json \<Rightarrow> err + bytes \<Rightarrow> err + APIConfig" where
  "LoadConfig J file =
     (case file of
        Inl e \<Rightarrow> Inl e
      | Inr data \<Rightarrow>
          (case Unmarshal_APIConfig J data of
             Inl e \<Rightarrow> Inl e
           | Inr config \<Rightarrow>
               if BearerToken config = [] then Inl ''bearer token not found in config file''
               else Inr config))"

subsection \<open>getHome, getProxies, getProxy\<close>

definition getHome :: HandlerFunc where
  "getHome r w fs = (w, fs)"


definition getProxy :: "faults \<Rightarrow> path \<Rightarrow> HandlerFunc" where
  "getProxy flt configPath r w fs =
     (let fileName = mux_Vars r ''name'' @ ''.json'' in
      case os_Open (Open_fault flt) (configPath @ ''/'' @ fileName) fs of
        Inl e \<Rightarrow> (WriteHeader 404 w, fs)
      | Inr jsonFile \<Rightarrow>
          (case ioutil_ReadAll (ReadAll_fault flt) jsonFile of
             Inl e \<Rightarrow> (WriteHeader 500 w, fs)
           | Inr config \<Rightarrow>
               (case Write (Write_fault flt) config w of
                  (Some e, w') \<Rightarrow> (WriteHeader 500 w', fs)
                | (None, w') \<Rightarrow> (w', fs))))"

subsection \<open>checkJSONAndRegister, addProxyWithName, removeProxy\<close>

text \<open>
  \<open>checkJSONAndRegister_steps\<close> returns the result together with the file system
  after each call that the function has made into it, oldest first, behind the file
  system it started from. \<open>checkJSONAndRegister\<close> keeps the last of them.
\<close>

definition checkJSONAndRegister_steps ::
    "json \<Rightarrow> faults \<Rightarrow> bytes \<Rightarrow> string \<Rightarrow> path \<Rightarrow> fs \<Rightarrow> bool \<times> fs list" where
  "checkJSONAndRegister_steps J flt rawData filename configPath fs =
     (case Unmarshal_ProxyConfig J rawData of
        Inl e \<Rightarrow> (False, [fs])
      | Inr cfg \<Rightarrow>
          if length (DomainNames cfg) < 1 \<or> ProxyTo cfg = [] then (False, [fs])
          else
            let path = configPath @ ''/'' @ filename;
                temppath = path @ ''.temp'' in
            (case os_WriteFile (WriteFile_fault flt) temppath rawData fs of
               (Some e, fs1) \<Rightarrow> (False, [fs, fs1])
             | (None, fs1) \<Rightarrow>
                 (case os_Rename (Rename_fault flt) temppath path fs1 of
                    (Some e, fs2) \<Rightarrow> (False, [fs, fs1, fs2])
                  | (None, fs2) \<Rightarrow> (True, [fs, fs1, fs2]))))"

definition checkJSONAndRegister ::
    "json \<Rightarrow> faults \<Rightarrow> bytes \<Rightarrow> string \<Rightarrow> path \<Rightarrow> fs \<Rightarrow> bool \<times> fs" where
  "checkJSONAndRegister J flt rawData filename configPath fs =
     (case checkJSONAndRegister_steps J flt rawData filename configPath fs of
        (successful, states) \<Rightarrow> (successful, last states))"

definition added_body :: bytes where
  "added_body = ''{'' @ [CHR 0x27] @ ''success'' @ [CHR 0x27] @ '': true, '' @ [CHR 0x27]
     @ ''message'' @ [CHR 0x27] @ '': '' @ [CHR 0x27]
     @ ''the proxy has been added succesfully'' @ [CHR 0x27] @ ''}''"

definition rejected_body :: bytes where
  "rejected_body = ''{'' @ [CHR 0x27] @ ''success'' @ [CHR 0x27] @ '': false, '' @ [CHR 0x27]
     @ ''message'' @ [CHR 0x27] @ '': '' @ [CHR 0x27]
     @ ''domainNames and proxyTo could not be found'' @ [CHR 0x27] @ ''}''"

definition addProxyWithName :: "json \<Rightarrow> faults \<Rightarrow> path \<Rightarrow> HandlerFunc" where
  "addProxyWithName J flt configPath r w fs =
     (let fileName = mux_Vars r ''name'' @ ''.json'' in
      case Body r of
        Inl e \<Rightarrow> (WriteHeader 400 w, fs)
      | Inr rawData \<Rightarrow>
          if rawData = [] then (WriteHeader 400 w, fs)
          else
            (case checkJSONAndRegister J flt rawData fileName configPath fs of
               (True, fs') \<Rightarrow> (snd (Write (Write_fault flt) added_body (WriteHeader 200 w)), fs')
             | (False, fs') \<Rightarrow> (snd (Write (Write_fault flt) rejected_body (WriteHeader 400 w)), fs')))"


subsection \<open>ListenAndServe\<close>



section \<open>The words of the specification\<close>

text \<open>
  A payload passes validation when it is not empty and decodes to a structure with a
  non-empty \<open>domainNames\<close> and a non-empty \<open>proxyTo\<close>.
\<close>

definition valid_payload :: "json \<Rightarrow> bytes \<Rightarrow> bool" where
  "valid_payload J raw =
     (raw \<noteq> [] \<and>
      (case Unmarshal_ProxyConfig J raw of
         Inl e \<Rightarrow> False
       | Inr cfg \<Rightarrow> DomainNames cfg \<noteq> [] \<and> ProxyTo cfg \<noteq> []))"

text \<open>The file of a name, and the sibling that a write goes through.\<close>

definition proxy_path :: "path \<Rightarrow> string \<Rightarrow> path" where
  "proxy_path configPath name = configPath @ ''/'' @ name @ ''.json''"


text \<open>
  A header of the exact two-token form \<^verbatim>\<open>Bearer <value>\<close>: the word, one space, and
  a value without a space.
\<close>

definition bearer_value :: "string \<Rightarrow> string option" where
  "bearer_value h =
     (if prefix ''Bearer '' h \<and> CHR '' '' \<notin> set (drop 7 h) then Some (drop 7 h) else None)"



section \<open>Examples\<close>

text \<open>
  A decoder that knows the payloads of the examples, for evaluating the handlers on
  concrete requests; its quoting is right for strings that need no escape.
\<close>

definition example_payload :: bytes where
  \<open>example_payload = ''{"domainNames":["example.com"],"proxyTo":"10.0.0.5:25565"}''\<close>

definition example_json :: json where
  \<open>example_json =
     \<lparr>Unmarshal_ProxyConfig =
        (\<lambda>b. if b = example_payload
             then Inr \<lparr>DomainNames = [''example.com''], ProxyTo = ''10.0.0.5:25565''\<rparr>
             else if b = ''{}'' then Inr \<lparr>DomainNames = [], ProxyTo = []\<rparr>
             else Inl ''invalid character''),
      Unmarshal_APIConfig =
        (\<lambda>b. if b = ''{"bearerToken":"a b"}'' then Inr \<lparr>BearerToken = ''a b''\<rparr>
             else if b = ''{"bearerToken":"secret123"}'' then Inr \<lparr>BearerToken = ''secret123''\<rparr>
             else Inl ''invalid character''),
      quote = (\<lambda>s. [CHR 0x22] @ s @ [CHR 0x22])\<rparr>\<close>

definition example_request :: "string \<Rightarrow> string \<Rightarrow> string option \<Rightarrow> err + bytes \<Rightarrow> request" where
  "example_request m p a b = \<lparr>Method = m, URLPath = p, Authorization = a, Vars = [], Body = b\<rparr>"

definition named_request :: "string \<Rightarrow> err + bytes \<Rightarrow> request" where
  "named_request n b =
     \<lparr>Method = [], URLPath = [], Authorization = None, Vars = [(''name'', n)], Body = b\<rparr>"

section \<open>Properties\<close>

subsection \<open>The response writer\<close>

lemma status_Write_WriteHeader:
  "\<not> wroteHeader w \<Longrightarrow> status (snd (Write flt b (WriteHeader c w))) = c"
  by (simp add: Write_def WriteHeader_def Let_def split: option.splits prod.splits)

lemma status_WriteHeader: "\<not> wroteHeader w \<Longrightarrow> status (WriteHeader c w) = c"
  by (simp add: WriteHeader_def)

lemma body_Write_WriteHeader:
  "body (snd (Write None b (WriteHeader c w))) = body w @ b"
  by (simp add: Write_def WriteHeader_def Let_def)

subsection \<open>Splitting the header\<close>

lemma genSplit_nonempty: "genSplit sep cur s \<noteq> []"
  by (induction sep cur s rule: genSplit.induct) auto

lemma genSplit_none: "d \<notin> set s \<Longrightarrow> genSplit [d] cur s = [cur @ s]"
  by (induction s arbitrary: cur) auto

lemma genSplit_first:
  "d \<notin> set a \<Longrightarrow> genSplit [d] cur (a @ d # rest) = (cur @ a) # genSplit [d] [] rest"
  by (induction a arbitrary: cur) auto

lemma genSplit_length: "length (genSplit [d] cur s) = Suc (length (filter (\<lambda>c. c = d) s))"
  by (induction s arbitrary: cur) auto

lemma genSplit_single: "length (genSplit [d] cur s) = 1 \<longleftrightarrow> d \<notin> set s"
  by (auto simp: genSplit_length filter_empty_conv)

lemma bearer_value_Some:
  "bearer_value h = Some v \<longleftrightarrow> h = ''Bearer '' @ v \<and> CHR '' '' \<notin> set v"
proof
  assume "bearer_value h = Some v"
  then have p: "prefix ''Bearer '' h" and v: "v = drop 7 h" and n: "CHR '' '' \<notin> set (drop 7 h)"
    by (auto simp: bearer_value_def split: if_splits)
  from p obtain t where "h = ''Bearer '' @ t"
    by (auto simp: prefix_def)
  with v n show "h = ''Bearer '' @ v \<and> CHR '' '' \<notin> set v"
    by simp
next
  assume "h = ''Bearer '' @ v \<and> CHR '' '' \<notin> set v"
  then show "bearer_value h = Some v"
    by (simp add: bearer_value_def)
qed

lemma Split_bearer:
  assumes "bearer_value h = Some v"
  shows "strings_Split h '' '' = [''Bearer'', v]"
proof -
  from assms have h: "h = ''Bearer'' @ CHR '' '' # v" and v: "CHR '' '' \<notin> set v"
    by (simp_all add: bearer_value_Some)
  have "genSplit [CHR '' ''] [] (''Bearer'' @ CHR '' '' # v) =
      ([] @ ''Bearer'') # genSplit [CHR '' ''] [] v"
    by (rule genSplit_first) simp
  then show ?thesis
    using v by (simp add: strings_Split_def h genSplit_none del: genSplit.simps)
qed

lemma Split_two_tokens:
  assumes "length (strings_Split h '' '') = 2" and "strings_Split h '' '' ! 0 = ''Bearer''"
  shows "\<exists>v. bearer_value h = Some v"
proof (cases "CHR '' '' \<in> set h")
  case False
  with assms(1) show ?thesis
    by (simp add: strings_Split_def genSplit_none)
next
  case True
  then obtain a b where h: "h = a @ CHR '' '' # b" and a: "CHR '' '' \<notin> set a"
    by (auto dest: split_list_first)
  have s: "strings_Split h '' '' = a # genSplit [CHR '' ''] [] b"
    using genSplit_first [OF a, of "[]" b] by (simp add: strings_Split_def h)
  from assms(1) have "length (genSplit [CHR '' ''] [] b) = 1"
    by (simp add: s)
  then have b: "CHR '' '' \<notin> set b"
    using genSplit_single [of "CHR '' ''" "[]" b] by blast
  from assms(2) have "a = ''Bearer''"
    by (simp add: s)
  with h b have "bearer_value h = Some b"
    by (simp add: bearer_value_Some)
  then show ?thesis ..
qed

subsection \<open>The authentication gate\<close>

lemma authenticate_decision:
  "authenticateMiddleware J flt config next r w fs =
     (case Authorization r of
        None \<Rightarrow> (deny J flt ''No authorization header provided'' w, fs)
      | Some h \<Rightarrow>
          if h = [] then (deny J flt ''No authorization header provided'' w, fs)
          else
            (case bearer_value h of
               None \<Rightarrow> (deny J flt ''Invalid authorization header format'' w, fs)
             | Some v \<Rightarrow>
                 if v = BearerToken config then next r w fs
                 else (deny J flt ''Invalid token'' w, fs)))"
proof (cases "Authorization r")
  case None
  then show ?thesis
    by (simp add: authenticateMiddleware_def Header_Get_Authorization_def)
next
  case (Some h)
  show ?thesis
  proof (cases "bearer_value h")
    case None
    then have "length (strings_Split h '' '') \<noteq> 2 \<or> strings_Split h '' '' ! 0 \<noteq> ''Bearer''"
      using Split_two_tokens [of h] by auto
    with Some None show ?thesis
      by (simp add: authenticateMiddleware_def Header_Get_Authorization_def Let_def)
  next
    case (Some v)
    then have "h \<noteq> []"
      by (auto simp: bearer_value_Some)
    with \<open>Authorization r = Some h\<close> Some Split_bearer [OF Some] show ?thesis
      by (auto simp: authenticateMiddleware_def Header_Get_Authorization_def Let_def)
  qed
qed

lemma authenticate_allows_secret:
  assumes "CHR '' '' \<notin> set (BearerToken config)"
    and "Authorization r = Some (''Bearer '' @ BearerToken config)"
  shows "authenticateMiddleware J flt config next r w fs = next r w fs"
proof -
  from assms(1) have "bearer_value (''Bearer '' @ BearerToken config) = Some (BearerToken config)"
    by (simp add: bearer_value_Some)
  with assms(2) show ?thesis
    by (simp add: authenticate_decision)
qed

lemma status_deny: "\<not> wroteHeader w \<Longrightarrow> status (deny J flt msg w) = 401"
  by (simp add: deny_def status_Write_WriteHeader)

lemma body_deny:
  "Write_fault flt = None \<Longrightarrow> body (deny J flt msg w) = body w @ marshal_map1 J ''error'' msg"
  by (simp add: deny_def body_Write_WriteHeader)

text \<open>
  C4, amended. Whatever handler it wraps, the middleware decides in this order: no
  \<^verbatim>\<open>Authorization\<close> header (or an empty one) is denied with the reason that none was
  provided; a header that is not of the exact two-token form \<^verbatim>\<open>Bearer <value>\<close> is
  denied as malformed; a value that differs from the loaded secret is denied as an invalid
  token; otherwise the wrapped handler runs. A denial has status 401, carries its reason
  as a JSON object, leaves the file system as it is and does not run the wrapped
  handler. A header that is \<^verbatim>\<open>Bearer \<close> followed by the configured secret is allowed
  when the secret contains no space.
\<close>

theorem authenticateMiddleware_rules:
  "authenticateMiddleware J flt config next r w fs =
     (case Authorization r of
        None \<Rightarrow> (deny J flt ''No authorization header provided'' w, fs)
      | Some h \<Rightarrow>
          if h = [] then (deny J flt ''No authorization header provided'' w, fs)
          else
            (case bearer_value h of
               None \<Rightarrow> (deny J flt ''Invalid authorization header format'' w, fs)
             | Some v \<Rightarrow>
                 if v = BearerToken config then next r w fs
                 else (deny J flt ''Invalid token'' w, fs))) \<and>
   (\<not> wroteHeader w \<longrightarrow>
      status (deny J flt msg w) = 401 \<and>
      (Write_fault flt = None \<longrightarrow> body (deny J flt msg w) = body w @ marshal_map1 J ''error'' msg)) \<and>
   (CHR '' '' \<notin> set (BearerToken config) \<and>
    Authorization r = Some (''Bearer '' @ BearerToken config) \<longrightarrow>
      authenticateMiddleware J flt config next r w fs = next r w fs)"
  using authenticate_decision [of J flt config "next" r w fs]
    authenticate_allows_secret [of config r J flt "next" w fs]
    status_deny [of w J flt msg] body_deny [of flt J msg w]
  by blast

theorem authenticateMiddleware_rules_witness:
  "CHR '' '' \<notin> set (BearerToken \<lparr>BearerToken = ''secret123''\<rparr>) \<and>
   Authorization (example_request ''GET'' ''/proxies'' (Some ''Bearer secret123'') (Inr [])) =
     Some (''Bearer '' @ BearerToken \<lparr>BearerToken = ''secret123''\<rparr>) \<and>
   \<not> wroteHeader NewResponse \<and>
   authenticateMiddleware example_json no_faults \<lparr>BearerToken = ''secret123''\<rparr> getHome
     (example_request ''GET'' ''/proxies'' (Some ''Bearer secret123'') (Inr [])) NewResponse [] =
     (NewResponse, []) \<and>
   authenticateMiddleware example_json no_faults \<lparr>BearerToken = ''secret123''\<rparr> getHome
     (example_request ''GET'' ''/proxies'' (Some ''Bearer wrong'') (Inr [])) NewResponse [] =
     (deny example_json no_faults ''Invalid token'' NewResponse, []) \<and>
   status (deny example_json no_faults ''Invalid token'' NewResponse) = 401"
  using authenticateMiddleware_rules [of example_json no_faults "\<lparr>BearerToken = ''secret123''\<rparr>"
      getHome "example_request ''GET'' ''/proxies'' (Some ''Bearer secret123'') (Inr [])"
      NewResponse "[]" "''Invalid token''"]
    authenticateMiddleware_rules [of example_json no_faults "\<lparr>BearerToken = ''secret123''\<rparr>"
      getHome "example_request ''GET'' ''/proxies'' (Some ''Bearer wrong'') (Inr [])"
      NewResponse "[]" "''Invalid token''"]
  by (simp add: example_request_def NewResponse_def getHome_def bearer_value_def)

text \<open>
  C4 as stated fails for a secret with a space in it, which \<open>LoadConfig\<close> accepts: the
  header made of \<^verbatim>\<open>Bearer \<close> and that secret has three tokens and is denied as
  malformed.
\<close>

theorem bearer_secret_with_space_counterexample:
  \<open>LoadConfig example_json (Inr ''{"bearerToken":"a b"}'') = Inr \<lparr>BearerToken = ''a b''\<rparr> \<and>
   authenticateMiddleware example_json no_faults \<lparr>BearerToken = ''a b''\<rparr> getHome
     (example_request ''GET'' ''/proxies'' (Some (''Bearer '' @ ''a b'')) (Inr [])) NewResponse [] =
   (\<lparr>wroteHeader = True, status = 401,
      body = marshal_map1 example_json ''error'' ''Invalid authorization header format''\<rparr>, [])\<close>
  by (simp add: LoadConfig_def example_json_def authenticateMiddleware_def
        Header_Get_Authorization_def example_request_def strings_Split_def deny_def Write_def
        WriteHeader_def NewResponse_def no_faults_def)

subsection \<open>The route table\<close>





subsection \<open>Validation and the steps of a write\<close>

lemma steps_invalid:
  "\<not> valid_payload J raw \<Longrightarrow> raw \<noteq> [] \<Longrightarrow>
   checkJSONAndRegister_steps J flt raw filename configPath fs = (False, [fs])"
  by (auto simp: valid_payload_def checkJSONAndRegister_steps_def split: sum.splits)

lemma steps_valid:
  "valid_payload J raw \<Longrightarrow>
   checkJSONAndRegister_steps J flt raw filename configPath fs =
     (case os_WriteFile (WriteFile_fault flt) (configPath @ ''/'' @ filename @ ''.temp'') raw fs of
        (Some e, fs1) \<Rightarrow> (False, [fs, fs1])
      | (None, fs1) \<Rightarrow>
          (case os_Rename (Rename_fault flt) (configPath @ ''/'' @ filename @ ''.temp'')
                  (configPath @ ''/'' @ filename) fs1 of
             (Some e, fs2) \<Rightarrow> (False, [fs, fs1, fs2])
           | (None, fs2) \<Rightarrow> (True, [fs, fs1, fs2])))"
  by (auto simp: valid_payload_def checkJSONAndRegister_steps_def Let_def
        split: sum.splits prod.splits option.splits)

lemma valid_example_payload: "valid_payload example_json example_payload"
  by (simp add: valid_payload_def example_json_def example_payload_def)

lemma invalid_empty_object: "\<not> valid_payload example_json ''{}''"
  by (simp add: valid_payload_def example_json_def example_payload_def)


text \<open>
  C3. A POST whose body cannot be read, is empty, does not decode, or decodes to an
  empty \<open>domainNames\<close> or an empty \<open>proxyTo\<close> is answered with status 400, and the
  file system after the request is the file system before it.
\<close>

theorem post_invalid_is_400_and_no_mutation:
  "(case Body r of Inl e \<Rightarrow> True | Inr raw \<Rightarrow> \<not> valid_payload J raw) \<Longrightarrow>
   \<not> wroteHeader w \<Longrightarrow>
   status (fst (addProxyWithName J flt configPath r w fs)) = 400 \<and>
   snd (addProxyWithName J flt configPath r w fs) = fs"
  by (auto simp: addProxyWithName_def checkJSONAndRegister_def steps_invalid WriteHeader_def
        Write_def Let_def split: sum.splits option.splits prod.splits)

theorem post_invalid_is_400_and_no_mutation_witness:
  "(case Body (named_request ''bad'' (Inr ''{}'')) of
      Inl e \<Rightarrow> True | Inr raw \<Rightarrow> \<not> valid_payload example_json raw) \<and>
   \<not> wroteHeader NewResponse \<and>
   status (fst (addProxyWithName example_json no_faults ''cfg'' (named_request ''bad'' (Inr ''{}''))
      NewResponse [(''cfg/bad.json'', ''old'')])) = 400 \<and>
   snd (addProxyWithName example_json no_faults ''cfg'' (named_request ''bad'' (Inr ''{}''))
      NewResponse [(''cfg/bad.json'', ''old'')]) = [(''cfg/bad.json'', ''old'')]"
proof -
  have h1: "case Body (named_request ''bad'' (Inr ''{}'')) of
      Inl e \<Rightarrow> True | Inr raw \<Rightarrow> \<not> valid_payload example_json raw"
    by (simp add: named_request_def invalid_empty_object)
  have h2: "\<not> wroteHeader NewResponse"
    by (simp add: NewResponse_def)
  show ?thesis
    using h1 h2 post_invalid_is_400_and_no_mutation [OF h1 h2] by simp
qed

subsection \<open>Writing a configuration\<close>

lemma checkJSONAndRegister_True:
  assumes "checkJSONAndRegister J flt raw filename configPath fs = (True, fs')" and "raw \<noteq> []"
  shows "valid_payload J raw \<and> WriteFile_fault flt = None \<and> Rename_fault flt = None \<and>
         fs' = AList.update (configPath @ ''/'' @ filename) raw
                 (AList.delete (configPath @ ''/'' @ filename @ ''.temp'')
                    (AList.update (configPath @ ''/'' @ filename @ ''.temp'') raw fs))"
proof (cases "valid_payload J raw")
  case False
  with assms show ?thesis
    by (simp add: checkJSONAndRegister_def steps_invalid)
next
  case True
  with assms show ?thesis
    by (auto simp: checkJSONAndRegister_def steps_valid os_WriteFile_def os_Rename_def
          update_conv' split: option.splits prod.splits if_splits)
qed

lemma checkJSONAndRegister_no_faults:
  assumes "valid_payload J raw" and "WriteFile_fault flt = None" and "Rename_fault flt = None"
  shows "checkJSONAndRegister J flt raw filename configPath fs =
         (True, AList.update (configPath @ ''/'' @ filename) raw
                 (AList.delete (configPath @ ''/'' @ filename @ ''.temp'')
                    (AList.update (configPath @ ''/'' @ filename @ ''.temp'') raw fs)))"
  using assms
  by (simp add: checkJSONAndRegister_def steps_valid os_WriteFile_def os_Rename_def update_conv')

lemma getProxy_present:
  assumes "map_of fs (configPath @ ''/'' @ mux_Vars r ''name'' @ ''.json'') = Some b"
    and "Open_fault flt = None" and "ReadAll_fault flt = None" and "Write_fault flt = None"
    and "\<not> wroteHeader w"
  shows "getProxy flt configPath r w fs =
         (w\<lparr>wroteHeader := True, status := 200, body := body w @ b\<rparr>, fs)"
  using assms
  by (simp add: getProxy_def os_Open_def ioutil_ReadAll_def Write_def WriteHeader_def)

text \<open>
  C1. A POST that is answered with status 200 has stored the posted bytes under the name,
  and a GET of the same name then answers 200 with exactly these bytes as its body; a
  POST of a payload that passes validation is answered with 200 when writing the
  temporary file and renaming it succeed. (The GET is one whose open, read and
  response write succeed.)
\<close>

theorem post_then_get_roundtrip:
  assumes "Body r = Inr raw" and "\<not> wroteHeader w" and "\<not> wroteHeader w'"
    and "mux_Vars r' ''name'' = mux_Vars r ''name''"
    and "Open_fault flt' = None" and "ReadAll_fault flt' = None" and "Write_fault flt' = None"
  shows "(valid_payload J raw \<and> WriteFile_fault flt = None \<and> Rename_fault flt = None \<longrightarrow>
            status (fst (addProxyWithName J flt configPath r w fs)) = 200) \<and>
         (status (fst (addProxyWithName J flt configPath r w fs)) = 200 \<longrightarrow>
            map_of (snd (addProxyWithName J flt configPath r w fs))
              (proxy_path configPath (mux_Vars r ''name'')) = Some raw \<and>
            getProxy flt' configPath r' w' (snd (addProxyWithName J flt configPath r w fs)) =
              (w'\<lparr>wroteHeader := True, status := 200, body := body w' @ raw\<rparr>,
               snd (addProxyWithName J flt configPath r w fs)))"
proof (intro conjI impI)
  assume "valid_payload J raw \<and> WriteFile_fault flt = None \<and> Rename_fault flt = None"
  then show "status (fst (addProxyWithName J flt configPath r w fs)) = 200"
    using assms(1,2)
    by (auto simp: addProxyWithName_def checkJSONAndRegister_no_faults valid_payload_def
          status_Write_WriteHeader)
next
  assume ok: "status (fst (addProxyWithName J flt configPath r w fs)) = 200"
  obtain b fs' where c: "checkJSONAndRegister J flt raw (mux_Vars r ''name'' @ ''.json'') configPath fs = (b, fs')"
    by (cases "checkJSONAndRegister J flt raw (mux_Vars r ''name'' @ ''.json'') configPath fs")
  from ok assms(1,2) c have ne: "raw \<noteq> []" and b: "b"
    by (auto simp: addProxyWithName_def status_Write_WriteHeader status_WriteHeader
          split: if_splits bool.splits)
  from c b ne have fs': "fs' = AList.update (configPath @ ''/'' @ mux_Vars r ''name'' @ ''.json'') raw
                 (AList.delete (configPath @ ''/'' @ (mux_Vars r ''name'' @ ''.json'') @ ''.temp'')
                    (AList.update (configPath @ ''/'' @ (mux_Vars r ''name'' @ ''.json'') @ ''.temp'') raw fs))"
    using checkJSONAndRegister_True [of J flt raw "mux_Vars r ''name'' @ ''.json''" configPath fs fs']
    by simp
  from c b ne assms(1) have snd_eq: "snd (addProxyWithName J flt configPath r w fs) = fs'"
    by (simp add: addProxyWithName_def)
  have look: "map_of fs' (configPath @ ''/'' @ mux_Vars r ''name'' @ ''.json'') = Some raw"
    by (simp add: fs' update_conv')
  then show "map_of (snd (addProxyWithName J flt configPath r w fs))
              (proxy_path configPath (mux_Vars r ''name'')) = Some raw"
    by (simp add: snd_eq proxy_path_def)
  show "getProxy flt' configPath r' w' (snd (addProxyWithName J flt configPath r w fs)) =
              (w'\<lparr>wroteHeader := True, status := 200, body := body w' @ raw\<rparr>,
               snd (addProxyWithName J flt configPath r w fs))"
    unfolding snd_eq
    using look assms(3-7) getProxy_present [of fs' configPath r' raw flt' w'] by simp
qed

theorem post_then_get_roundtrip_witness:
  "status (fst (addProxyWithName example_json no_faults ''cfg''
      (named_request ''example'' (Inr example_payload)) NewResponse [])) = 200 \<and>
   getProxy no_faults ''cfg'' (named_request ''example'' (Inl [])) NewResponse
     (snd (addProxyWithName example_json no_faults ''cfg''
        (named_request ''example'' (Inr example_payload)) NewResponse [])) =
     (\<lparr>wroteHeader = True, status = 200, body = example_payload\<rparr>,
      snd (addProxyWithName example_json no_faults ''cfg''
        (named_request ''example'' (Inr example_payload)) NewResponse []))"
  using post_then_get_roundtrip [where r = "named_request ''example'' (Inr example_payload)"
      and raw = example_payload and w = NewResponse and w' = NewResponse
      and r' = "named_request ''example'' (Inl [])" and flt' = no_faults and J = example_json
      and flt = no_faults and configPath = "''cfg''" and fs = "[]"]
    valid_example_payload
  by (simp add: named_request_def NewResponse_def no_faults_def mux_Vars_def)






subsection \<open>Reading and removing a configuration\<close>

text \<open>
  C7, amended. GET of a name answers 404 whenever opening its file fails, whether the
  file is absent or not; 500 when the opened file cannot be read; and otherwise 200
  with the stored bytes as they are (as many of them as the response write lets
  through).
\<close>

theorem get_proxy_status_mapping:
  assumes "\<not> wroteHeader w"
  shows "getProxy flt configPath r w fs =
     (case Open_fault flt of
        Some e \<Rightarrow> (w\<lparr>wroteHeader := True, status := 404\<rparr>, fs)
      | None \<Rightarrow>
          (case map_of fs (proxy_path configPath (mux_Vars r ''name'')) of
             None \<Rightarrow> (w\<lparr>wroteHeader := True, status := 404\<rparr>, fs)
           | Some b \<Rightarrow>
               (case ReadAll_fault flt of
                  Some e \<Rightarrow> (w\<lparr>wroteHeader := True, status := 500\<rparr>, fs)
                | None \<Rightarrow>
                    (case Write_fault flt of
                       None \<Rightarrow> (w\<lparr>wroteHeader := True, status := 200, body := body w @ b\<rparr>, fs)
                     | Some (e, n) \<Rightarrow>
                         (w\<lparr>wroteHeader := True, status := 200, body := body w @ take n b\<rparr>, fs)))))"
  using assms
  by (simp add: getProxy_def os_Open_def ioutil_ReadAll_def Write_def WriteHeader_def
        proxy_path_def Let_def split: option.splits prod.splits)

theorem get_proxy_status_mapping_witness:
  "\<not> wroteHeader NewResponse \<and>
   getProxy no_faults ''cfg'' (named_request ''example'' (Inl [])) NewResponse
     [(''cfg/example.json'', ''data'')] =
   (\<lparr>wroteHeader = True, status = 200, body = ''data''\<rparr>, [(''cfg/example.json'', ''data'')]) \<and>
   getProxy no_faults ''cfg'' (named_request ''missing'' (Inl [])) NewResponse
     [(''cfg/example.json'', ''data'')] =
   (\<lparr>wroteHeader = True, status = 404, body = []\<rparr>, [(''cfg/example.json'', ''data'')]) \<and>
   getProxy (no_faults\<lparr>ReadAll_fault := Some ''input/output error''\<rparr>) ''cfg''
     (named_request ''example'' (Inl [])) NewResponse [(''cfg/example.json'', ''data'')] =
   (\<lparr>wroteHeader = True, status = 500, body = []\<rparr>, [(''cfg/example.json'', ''data'')])"
proof -
  have h: "\<not> wroteHeader NewResponse"
    by (simp add: NewResponse_def)
  show ?thesis
    using h get_proxy_status_mapping [OF h, of no_faults "''cfg''" "named_request ''example'' (Inl [])"
        "[(''cfg/example.json'', ''data'')]"]
      get_proxy_status_mapping [OF h, of no_faults "''cfg''" "named_request ''missing'' (Inl [])"
        "[(''cfg/example.json'', ''data'')]"]
      get_proxy_status_mapping [OF h, of "no_faults\<lparr>ReadAll_fault := Some ''input/output error''\<rparr>"
        "''cfg''" "named_request ''example'' (Inl [])" "[(''cfg/example.json'', ''data'')]"]
    by (simp add: no_faults_def NewResponse_def named_request_def mux_Vars_def proxy_path_def)
qed

text \<open>
  C7 as stated fails: an open error on a file that exists is answered with 404, not 500.
\<close>

theorem get_proxy_open_error_counterexample:
  "map_of [(''cfg/example.json'', ''data'')] (proxy_path ''cfg'' ''example'') = Some ''data'' \<and>
   getProxy (no_faults\<lparr>Open_fault := Some ''permission denied''\<rparr>) ''cfg''
     (named_request ''example'' (Inl [])) NewResponse [(''cfg/example.json'', ''data'')] =
   (\<lparr>wroteHeader = True, status = 404, body = []\<rparr>, [(''cfg/example.json'', ''data'')])"
  by (simp add: getProxy_def os_Open_def WriteHeader_def proxy_path_def no_faults_def
        NewResponse_def)



subsection \<open>Listing the directory\<close>











subsection \<open>The storage path\<close>





end
